theory Spec2Isabelle
  imports Main "HOL-Library.Word"
begin

section \<open>Python values used by \<open>main.py\<close>\<close>

text \<open>
  A Python \<open>str\<close> is modelled as a \<open>string\<close> in which every \<open>char\<close> stands for one
  code point, so \<open>length\<close> is Python's \<open>len\<close>. The library functions below
  (\<open>strip\<close>, \<open>splitlines\<close>, \<open>lower\<close>, \<open>quote\<close>) are written out for the code points
  U+0000 to U+00FF, which is the range a \<open>char\<close> holds.
\<close>

subsection \<open>String methods\<close>

text \<open>\<open>str.isspace\<close> for one code point below U+0100.\<close>

definition is_space :: "char \<Rightarrow> bool" where
  "is_space c =
     (let n = (of_char c :: nat)
      in (9 \<le> n \<and> n \<le> 13) \<or> (28 \<le> n \<and> n \<le> 32) \<or> n = 133 \<or> n = 160)"

definition lstrip :: "string \<Rightarrow> string" where
  "lstrip s = dropWhile is_space s"

definition rstrip :: "string \<Rightarrow> string" where
  "rstrip s = rev (dropWhile is_space (rev s))"

text \<open>\<open>s.strip()\<close>\<close>

definition strip :: "string \<Rightarrow> string" where
  "strip s = rstrip (lstrip s)"

text \<open>\<open>s.startswith(p)\<close>\<close>

definition startswith :: "string \<Rightarrow> string \<Rightarrow> bool" where
  "startswith s p = (take (length p) s = p)"

text \<open>\<open>needle in s\<close> for two strings: \<open>needle\<close> occurs in \<open>s\<close> as a contiguous run.\<close>

fun str_contains :: "string \<Rightarrow> string \<Rightarrow> bool" where
  "str_contains [] needle = (needle = [])"
| "str_contains (c # cs) needle = (startswith (c # cs) needle \<or> str_contains cs needle)"

text \<open>The characters at which \<open>str.splitlines\<close> ends a line (below U+0100).\<close>

definition is_linebreak :: "char \<Rightarrow> bool" where
  "is_linebreak c =
     (let n = (of_char c :: nat)
      in (10 \<le> n \<and> n \<le> 13) \<or> (28 \<le> n \<and> n \<le> 30) \<or> n = 133)"

text \<open>
  \<open>s.splitlines()\<close>: \<open>cur\<close> is the line read so far. A carriage return followed by a
  line feed ends one line, not two; a last line without a terminator is kept when it is
  not empty.
\<close>

fun splitlines_from :: "string \<Rightarrow> string \<Rightarrow> string list" where
  "splitlines_from cur [] = (if cur = [] then [] else [cur])"
| "splitlines_from cur [c] = (if is_linebreak c then [cur] else [cur @ [c]])"
| "splitlines_from cur (c # d # cs) =
     (if c = CHR 0x0D \<and> d = CHR 0x0A then cur # splitlines_from [] cs
      else if is_linebreak c then cur # splitlines_from [] (d # cs)
      else splitlines_from (cur @ [c]) (d # cs))"

definition splitlines :: "string \<Rightarrow> string list" where
  "splitlines s = splitlines_from [] s"

text \<open>\<open>sep.join(parts)\<close>\<close>

fun join :: "string \<Rightarrow> string list \<Rightarrow> string" where
  "join sep [] = []"
| "join sep [x] = x"
| "join sep (x # y # ys) = x @ sep @ join sep (y # ys)"

text \<open>\<open>s.lower()\<close> for code points below U+0100: A-Z and the Latin-1 capitals move by 32.\<close>

definition lower_char :: "char \<Rightarrow> char" where
  "lower_char c =
     (let n = (of_char c :: nat)
      in if (65 \<le> n \<and> n \<le> 90) \<or> (192 \<le> n \<and> n \<le> 222 \<and> n \<noteq> 215)
         then char_of (n + 32) else c)"

definition lower :: "string \<Rightarrow> string" where
  "lower s = map lower_char s"

subsection \<open>JSON values\<close>

text \<open>
  What \<open>json.loads\<close> returns: \<open>None\<close>, a bool, an int, a float, a str, a list or a
  dict. A dict is an association list read through \<open>map_of\<close>. Of a float only its
  truth value is ever used by the program.
\<close>

datatype pyfloat = Finite int int | Infinite bool | NaN

datatype json =
    JNull
  | JBool bool
  | JInt int
  | JFloat pyfloat
  | JStr string
  | JArr "json list"
  | JObj "(string \<times> json) list"

type_synonym dict = "(string \<times> json) list"

datatype py_error =
    JSONDecodeError | TypeError | KeyError | IndexError | AttributeError
  | ClientError | TimeoutError | OtherError

text \<open>Sequencing of steps that may raise: the first exception ends the computation.\<close>

definition and_then :: "py_error + 'a \<Rightarrow> ('a \<Rightarrow> py_error + 'b) \<Rightarrow> py_error + 'b" where
  "and_then x f = (case x of Inl e \<Rightarrow> Inl e | Inr v \<Rightarrow> f v)"

text \<open>\<open>k in x\<close> for a string \<open>k\<close>\<close>

definition py_in :: "string \<Rightarrow> json \<Rightarrow> py_error + bool" where
  "py_in k x =
     (case x of
        JObj kvs \<Rightarrow> Inr (map_of kvs k \<noteq> None)
      | JArr xs \<Rightarrow> Inr (JStr k \<in> set xs)
      | JStr s \<Rightarrow> Inr (str_contains s k)
      | _ \<Rightarrow> Inl TypeError)"

text \<open>\<open>x[k]\<close> for a string \<open>k\<close>\<close>

definition py_getitem :: "json \<Rightarrow> string \<Rightarrow> py_error + json" where
  "py_getitem x k =
     (case x of
        JObj kvs \<Rightarrow> (case map_of kvs k of None \<Rightarrow> Inl KeyError | Some v \<Rightarrow> Inr v)
      | _ \<Rightarrow> Inl TypeError)"

text \<open>\<open>len(x)\<close>\<close>

definition py_len :: "json \<Rightarrow> py_error + nat" where
  "py_len x =
     (case x of
        JObj kvs \<Rightarrow> Inr (length (remdups (map fst kvs)))
      | JArr xs \<Rightarrow> Inr (length xs)
      | JStr s \<Rightarrow> Inr (length s)
      | _ \<Rightarrow> Inl TypeError)"

text \<open>\<open>x[0]\<close>; the keys of a dict read from JSON are strings, so \<open>0\<close> is never one.\<close>

definition py_first :: "json \<Rightarrow> py_error + json" where
  "py_first x =
     (case x of
        JArr xs \<Rightarrow> (case xs of [] \<Rightarrow> Inl IndexError | y # _ \<Rightarrow> Inr y)
      | JStr s \<Rightarrow> (case s of [] \<Rightarrow> Inl IndexError | c # _ \<Rightarrow> Inr (JStr [c]))
      | JObj kvs \<Rightarrow> Inl KeyError
      | _ \<Rightarrow> Inl TypeError)"

text \<open>\<open>x.get(k, dflt)\<close>: only a dict has the method.\<close>

definition py_get :: "json \<Rightarrow> string \<Rightarrow> json \<Rightarrow> py_error + json" where
  "py_get x k dflt =
     (case x of
        JObj kvs \<Rightarrow> Inr (case map_of kvs k of None \<Rightarrow> dflt | Some v \<Rightarrow> v)
      | _ \<Rightarrow> Inl AttributeError)"

text \<open>The truth value of \<open>x\<close> in \<open>if x:\<close>\<close>

definition truthy :: "json \<Rightarrow> bool" where
  "truthy x =
     (case x of
        JNull \<Rightarrow> False
      | JBool b \<Rightarrow> b
      | JInt i \<Rightarrow> i \<noteq> 0
      | JFloat f \<Rightarrow> (case f of Finite m e \<Rightarrow> m \<noteq> 0 | _ \<Rightarrow> True)
      | JStr s \<Rightarrow> s \<noteq> []
      | JArr xs \<Rightarrow> xs \<noteq> []
      | JObj kvs \<Rightarrow> kvs \<noteq> [])"

text \<open>\<open>del d[k]\<close> on a dict that has the key\<close>

definition dict_del :: "dict \<Rightarrow> string \<Rightarrow> dict" where
  "dict_del d k = filter (\<lambda>kv. fst kv \<noteq> k) d"

text \<open>\<open>isinstance(d.get(k), str)\<close> together with \<open>k in d\<close>\<close>

definition has_str :: "dict \<Rightarrow> string \<Rightarrow> bool" where
  "has_str d k = (case map_of d k of Some (JStr s) \<Rightarrow> True | _ \<Rightarrow> False)"

section \<open>The observable calls\<close>

type_synonym bytes = "8 word list"

text \<open>
  Every call the bot makes to Discord or to an HTTP endpoint is recorded, in order. The
  traces describe runs in which Discord accepts each call. \<open>Reply t m\<close> is
  \<open>message.reply(t, mention_author=m)\<close>, \<open>ReplyTemp t m n\<close> the same with \<open>delete_after=n\<close>,
  \<open>HttpPost\<close> the request to the completion endpoint, \<open>FetchMember\<close> the call of
  \<open>guild.fetch_member\<close> and \<open>ProcessCommands\<close> that of \<open>bot.process_commands\<close>.
\<close>

datatype event =
    Typing
  | Reply string bool
  | Send string
  | SendFile bytes string
  | Sleep
  | HttpPost
  | HttpGet string
  | Invoke string
  | ReplyTemp string bool nat
  | FetchMember
  | ProcessCommands

section \<open>\<open>call_ai_api\<close>\<close>

text \<open>
  The JSON parser \<open>json.loads\<close> is a parameter: \<open>loads s = None\<close> when it raises on the
  text \<open>s\<close>. Applied to a value that is not a \<open>str\<close> it raises \<open>TypeError\<close>.
\<close>

definition json_loads :: "(string \<Rightarrow> json option) \<Rightarrow> json \<Rightarrow> py_error + json" where
  "json_loads loads x =
     (case x of
        JStr s \<Rightarrow> (case loads s of None \<Rightarrow> Inl JSONDecodeError | Some v \<Rightarrow> Inr v)
      | _ \<Rightarrow> Inl TypeError)"

text \<open>Lines 255 to 280: the shape check of the parsed content and the \<open>code\<close> rule.\<close>

definition validate_content :: "json \<Rightarrow> dict option" where
  "validate_content parsed_content =
     (case parsed_content of
        JObj d \<Rightarrow>
          if has_str d ''response'' \<and> has_str d ''feedback'' \<and> has_str d ''type'' \<and>
             map_of d ''type'' \<in> Some ` JStr ` set [''text'', ''code'', ''audio'', ''rejection'']
          then
            if map_of d ''type'' = Some (JStr ''code'') then
              (if map_of d ''code'' = None \<or> \<not> has_str d ''code'' \<or>
                  (case map_of d ''code'' of Some (JStr c) \<Rightarrow> strip c = [] | _ \<Rightarrow> True)
               then None else Some d)
            else if map_of d ''code'' \<noteq> None then Some (dict_del d ''code'')
            else Some d
          else None
      | _ \<Rightarrow> None)"

text \<open>
  Lines 243 to 292, the body run on a status of 200. \<open>Inl e\<close> is an exception that
  leaves the inner \<open>try\<close> blocks; \<open>Inr None\<close> is one of the \<open>return None\<close> statements.
  The \<open>finish_reason\<close> is only logged.
\<close>

definition unwrap_response :: "(string \<Rightarrow> json option) \<Rightarrow> string \<Rightarrow> py_error + dict option" where
  "unwrap_response loads response_text =
     (case loads response_text of
        None \<Rightarrow> Inr None
      | Some ai_result_wrapper \<Rightarrow>
          and_then (py_in ''choices'' ai_result_wrapper) (\<lambda>has_choices.
          and_then (if has_choices
                    then and_then (py_getitem ai_result_wrapper ''choices'') (\<lambda>choices.
                         and_then (py_len choices) (\<lambda>n. Inr (n > 0)))
                    else Inr False) (\<lambda>nonempty.
          if nonempty then
            and_then (py_getitem ai_result_wrapper ''choices'') (\<lambda>choices.
            and_then (py_first choices) (\<lambda>choice.
            and_then (py_get choice ''message'' (JObj [])) (\<lambda>message_obj.
            and_then (py_get message_obj ''content'' JNull) (\<lambda>message_content_str.
            if truthy message_content_str then
              (case json_loads loads message_content_str of
                 Inl JSONDecodeError \<Rightarrow> Inr None
               | Inl e \<Rightarrow> Inl e
               | Inr parsed_content \<Rightarrow> Inr (validate_content parsed_content))
            else Inr None))))
          else Inr None)))"

text \<open>
  \<open>call_ai_api\<close>: \<open>post\<close> is what \<open>session.post\<close> and \<open>response.text()\<close> give, an exception
  or the status with the body text. The three outer \<open>except\<close> clauses all return \<open>None\<close>.
\<close>

definition call_ai_api ::
    "(string \<Rightarrow> json option) \<Rightarrow> py_error + int \<times> string \<Rightarrow> event list \<times> dict option" where
  "call_ai_api loads post =
     ([HttpPost],
      case post of
        Inl e \<Rightarrow> None
      | Inr (status, response_text) \<Rightarrow>
          if status = 200 then
            (case unwrap_response loads response_text of
               Inl e \<Rightarrow> None
             | Inr result \<Rightarrow> result)
          else None)"


section \<open>\<open>get_user_info\<close>\<close>

text \<open>
  The Discord objects, with the attributes the function reads. \<open>member_str\<close> is
  \<open>str(member)\<close>; a permission set is the list of pairs \<open>iter(perms)\<close> yields; a user who
  is not a guild member, and a channel that is not a guild channel, carry nothing.
\<close>

record role =
  role_id :: int
  role_name :: string
  position :: int

record member =
  member_id :: int
  member_str :: string
  nick :: "string option"
  global_name :: "string option"
  roles :: "role list"
  top_role :: role
  guild_permissions :: "(string \<times> bool) list"

record guild =
  guild_id :: int
  owner_id :: int
  me :: member

datatype author = User | Member member "guild option"

datatype channel = GuildChannel "member \<Rightarrow> (string \<times> bool) list" | OtherChannel

text \<open>\<open>str(n)\<close> for an int\<close>

fun str_nat :: "nat \<Rightarrow> string" where
  "str_nat n = (if n < 10 then [char_of (48 + n)] else str_nat (n div 10) @ [char_of (48 + n mod 10)])"

definition str_int :: "int \<Rightarrow> string" where
  "str_int i = (if i < 0 then CHR ''-'' # str_nat (nat (- i)) else str_nat (nat i))"

text \<open>Line 182; a role object is true, \<open>None\<close> is not.\<close>

definition get_role_pos :: "guild \<Rightarrow> role option \<Rightarrow> int" where
  "get_role_pos g r =
     (case r of
        Some rl \<Rightarrow> if role_id rl \<noteq> guild_id g then position rl else - 1
      | None \<Rightarrow> - 1)"

definition opt_str :: "string option \<Rightarrow> json" where
  "opt_str v = (case v of None \<Rightarrow> JNull | Some s \<Rightarrow> JStr s)"

text \<open>\<open>[perm for perm, value in iter(perms) if value]\<close>\<close>

definition granted :: "(string \<times> bool) list \<Rightarrow> json" where
  "granted perms = JArr (map (\<lambda>pv. JStr (fst pv)) (filter snd perms))"

definition get_user_info :: "author \<Rightarrow> channel \<Rightarrow> dict" where
  "get_user_info a ch =
     (case a of
        User \<Rightarrow> []
      | Member m None \<Rightarrow> []
      | Member m (Some g) \<Rightarrow>
          (case ch of
             OtherChannel \<Rightarrow> []
           | GuildChannel permissions_for \<Rightarrow>
               (let bot_member = me g;
                    perms_in_channel = permissions_for m;
                    bot_perms_in_channel = permissions_for bot_member;
                    perms_in_guild = guild_permissions m;
                    bot_perms_in_guild = guild_permissions bot_member
                in [(''userId'', JStr (str_int (member_id m))),
                    (''serverId'', JStr (str_int (guild_id g))),
                    (''userName'', JStr (member_str m)),
                    (''userNick'', opt_str (nick m)),
                    (''userGlobalName'', opt_str (global_name m)),
                    (''userRoles'',
                       JArr (map (\<lambda>r. JStr (role_name r))
                              (filter (\<lambda>r. role_id r \<noteq> guild_id g) (roles m)))),
                    (''userRoleIds'',
                       JArr (map (\<lambda>r. JStr (str_int (role_id r)))
                              (filter (\<lambda>r. role_id r \<noteq> guild_id g) (roles m)))),
                    (''userTopRoleId'',
                       JStr (if role_id (top_role m) \<noteq> guild_id g
                             then str_int (role_id (top_role m)) else str_int (guild_id g))),
                    (''userTopRoleName'',
                       JStr (if role_id (top_role m) \<noteq> guild_id g
                             then role_name (top_role m) else ''@everyone'')),
                    (''userTopRolePosition'', JInt (get_role_pos g (Some (top_role m)))),
                    (''userChannelPermissions'', granted perms_in_channel),
                    (''userGuildPermissions'', granted perms_in_guild),
                    (''isOwner'', JBool (member_id m = owner_id g)),
                    (''botUserId'', JStr (str_int (member_id bot_member))),
                    (''botTopRoleId'',
                       JStr (if role_id (top_role bot_member) \<noteq> guild_id g
                             then str_int (role_id (top_role bot_member))
                             else str_int (guild_id g))),
                    (''botTopRolePosition'', JInt (get_role_pos g (Some (top_role bot_member)))),
                    (''botGuildPermissions'', granted bot_perms_in_guild),
                    (''botChannelPermissions'', granted bot_perms_in_channel)])))"

section \<open>\<open>get_audio_from_text\<close>\<close>

text \<open>
  \<open>urllib.parse.quote(text, safe='')\<close>: the text is encoded in UTF-8; letters, digits
  and \<open>_.-~\<close> stay, every other byte becomes \<open>%XX\<close>.
\<close>

definition unreserved :: "char \<Rightarrow> bool" where
  "unreserved c =
     (let n = (of_char c :: nat)
      in (65 \<le> n \<and> n \<le> 90) \<or> (97 \<le> n \<and> n \<le> 122) \<or> (48 \<le> n \<and> n \<le> 57) \<or>
         c \<in> set ''_.-~'')"

definition hex_digit :: "nat \<Rightarrow> char" where
  "hex_digit n = ''0123456789ABCDEF'' ! (n mod 16)"

definition percent :: "nat \<Rightarrow> string" where
  "percent b = [CHR ''%'', hex_digit (b div 16), hex_digit (b mod 16)]"

definition utf8 :: "char \<Rightarrow> nat list" where
  "utf8 c =
     (let n = (of_char c :: nat)
      in if n < 128 then [n] else [192 + n div 64, 128 + n mod 64])"

definition quote_char :: "char \<Rightarrow> string" where
  "quote_char c = (if unreserved c then [c] else concat (map percent (utf8 c)))"

definition quote :: "string \<Rightarrow> string" where
  "quote s = concat (map quote_char s)"

definition AI_AUDIO_API_URL_TEMPLATE :: string where
  "AI_AUDIO_API_URL_TEMPLATE =
     ''https://text.pollinations.ai/{prompt}?model=openai-audio&voice=nova''"

text \<open>\<open>AI_AUDIO_API_URL_TEMPLATE.format(prompt=p)\<close>\<close>

definition format_prompt :: "string \<Rightarrow> string" where
  "format_prompt p = ''https://text.pollinations.ai/'' @ p @ ''?model=openai-audio&voice=nova''"

text \<open>Lines 315 to 326: the URL requested, or \<open>None\<close> for the \<open>return None\<close> of line 323.\<close>

definition audio_url :: "string \<Rightarrow> string option" where
  "audio_url text =
     (let encoded_prompt = quote text;
          url = format_prompt encoded_prompt;
          max_url_len = (2000 :: int)
      in if int (length url) > max_url_len then
           (let allowed_prompt_len =
                  max_url_len -
                  (int (length AI_AUDIO_API_URL_TEMPLATE) - int (length ''{prompt}'')) - 50
            in if allowed_prompt_len \<le> 0 then None
               else (let truncated_text = take (nat allowed_prompt_len) text @ ''...''
                     in Some (format_prompt (quote truncated_text))))
         else Some url)"

text \<open>
  The answer of the audio endpoint: the status, the \<open>Content-Type\<close> header if there is
  one, and what \<open>response.read()\<close> gives.
\<close>

record audio_response =
  resp_status :: int
  resp_content_type :: "string option"
  resp_read :: "py_error + bytes"

text \<open>
  \<open>session_get url\<close> is what \<open>session.get(url, timeout=90)\<close> gives. The \<open>except\<close>
  clauses all return \<open>None\<close>; \<open>response.text()\<close> on the failure branches is only logged.
\<close>

definition get_audio_from_text ::
    "(string \<Rightarrow> py_error + audio_response) \<Rightarrow> string \<Rightarrow> event list \<times> bytes option" where
  "get_audio_from_text session_get text =
     (if text = [] then ([], None)
      else
        (case audio_url text of
           None \<Rightarrow> ([], None)
         | Some url \<Rightarrow>
             ([HttpGet url],
              case session_get url of
                Inl e \<Rightarrow> None
              | Inr response \<Rightarrow>
                  if resp_status response = 200 then
                    (let content_type =
                           lower (case resp_content_type response of None \<Rightarrow> [] | Some v \<Rightarrow> v)
                     in if str_contains content_type ''audio'' then
                          (case resp_read response of
                             Inl e \<Rightarrow> None
                           | Inr audio_bytes \<Rightarrow>
                               if audio_bytes \<noteq> [] then Some audio_bytes else None)
                        else None)
                  else None)))"

section \<open>\<open>on_message\<close>: the response dispatcher\<close>

text \<open>What the bot finds when it looks for the Jishaku command and runs it.\<close>

datatype invoke_result = InvokeOk | CommandError | InvokeError string

record bot_env =
  env_post :: "py_error + int \<times> string"
  env_get :: "string \<Rightarrow> py_error + audio_response"
  env_jsk_cog :: bool
  env_py_command :: bool
  env_ctx :: bool
  env_invoke :: "string \<Rightarrow> invoke_result"

definition nl :: string where
  "nl = [CHR 0x0A]"

text \<open>\<open>range(start, stop, step)\<close> for a positive step, and \<open>s[i:j]\<close>\<close>

definition py_range :: "nat \<Rightarrow> nat \<Rightarrow> nat \<Rightarrow> nat list" where
  "py_range start stop step =
     map (\<lambda>k. start + k * step) [0..<(stop - start + step - 1) div step]"

definition slice :: "'a list \<Rightarrow> nat \<Rightarrow> nat \<Rightarrow> 'a list" where
  "slice s i j = take (j - i) (drop i s)"

text \<open>Line 506\<close>

definition split_parts :: "string \<Rightarrow> string list" where
  "split_parts response_text =
     map (\<lambda>i. slice response_text i (i + 1990)) (py_range 0 (length response_text) 1990)"

text \<open>
  Lines 533 to 536. \<open>lines[0]\<close> and \<open>lines[-1]\<close> raise \<open>IndexError\<close> on an empty list;
  \<open>lines[1:-1]\<close> is the list without its first and last element.
\<close>

definition clean_code :: "string \<Rightarrow> py_error + string" where
  "clean_code code_to_execute =
     (if startswith (strip code_to_execute) ''```'' then
        (let lines = splitlines (strip code_to_execute)
         in case lines of
              [] \<Rightarrow> Inl IndexError
            | first # rest \<Rightarrow>
                Inr (strip (join nl
                  (if startswith first ''```'' \<and> last lines = ''```'' then butlast (tl lines)
                   else if startswith first ''```'' then tl lines
                   else lines))))
      else Inr (strip code_to_execute))"

text \<open>Lines 545 to 580, after the acknowledgement\<close>

definition execute_code :: "bot_env \<Rightarrow> string \<Rightarrow> event list" where
  "execute_code env code_to_execute =
     (if \<not> env_jsk_cog env then
        [Send ''_(CRITICAL ERROR: Code execution module is unavailable.)_'']
      else if \<not> env_py_command env then
        [Send ''_(Error: Cannot locate the Python execution command.)_'']
      else if \<not> env_ctx env then
        [Send ''_(Error: Could not create execution context.)_'']
      else
        Invoke code_to_execute #
        (case env_invoke env code_to_execute of
           InvokeOk \<Rightarrow> []
         | CommandError \<Rightarrow> []
         | InvokeError exec_err \<Rightarrow>
             [Send (''_(Error during code execution setup: '' @ exec_err @ '')_'')]))"

definition no_code_notice :: string where
  "no_code_notice =
     ''_(Internal Error: AI indicated executable code, but none was provided.)_''"

definition empty_code_notice :: string where
  "empty_code_notice =
     ''_(The AI provided code, but it appears to be empty. Action aborted.)_''"

text \<open>
  Lines 501 to 601, on the values of lines 493 to 496; \<open>code_to_execute\<close> is \<open>None\<close>
  when the payload has no \<open>code\<close> key.
\<close>

definition dispatch :: "bot_env \<Rightarrow> string \<Rightarrow> string \<Rightarrow> string option \<Rightarrow> event list" where
  "dispatch env response_text response_type code_to_execute =
     (if response_type \<in> set [''text'', ''rejection''] then
        (if length response_text > 2000 then
           concat (map (\<lambda>(i, part). [Reply part (\<not> i > 0), Sleep])
                     (enumerate 0 (split_parts response_text)))
         else [Reply response_text False])
      else if response_type = ''audio'' then
        Reply response_text False #
        (case get_audio_from_text (env_get env) response_text of
           (evs, audio_data) \<Rightarrow>
             evs @
             [case audio_data of
                None \<Rightarrow> Send ''_(Could not generate or retrieve the audio version.)_''
              | Some b \<Rightarrow>
                  if b \<noteq> [] then SendFile b ''metarunx_response.mp3''
                  else Send ''_(Could not generate or retrieve the audio version.)_''])
      else if response_type = ''code'' then
        (case code_to_execute of
           None \<Rightarrow> [Reply (response_text @ nl @ nl @ no_code_notice) False]
         | Some code \<Rightarrow>
             if code = [] then [Reply (response_text @ nl @ nl @ no_code_notice) False]
             else
               (case clean_code code of
                  Inl e \<Rightarrow>
                    [Send ''_(An unexpected internal error occurred processing the response.)_'']
                | Inr cleaned \<Rightarrow>
                    if cleaned = [] then
                      [Reply (response_text @ nl @ nl @ empty_code_notice) False]
                    else Reply response_text False # execute_code env cleaned))
      else
        [Reply (response_text @ nl @ nl @ ''_(Received an unexpected response type '' @
                [CHR 0x27] @ response_type @ [CHR 0x27] @ ''. Displaying as text.)_'') False])"

text \<open>\<open>d.get(k, dflt)\<close> for a value that is a \<open>str\<close>; \<open>None\<close> for a value of another type\<close>

definition get_str :: "dict \<Rightarrow> string \<Rightarrow> string \<Rightarrow> string option" where
  "get_str d k dflt =
     (case map_of d k of None \<Rightarrow> Some dflt | Some (JStr s) \<Rightarrow> Some s | Some _ \<Rightarrow> None)"

text \<open>\<open>d.get("code")\<close> likewise\<close>

definition get_code :: "dict \<Rightarrow> string option option" where
  "get_code d =
     (case map_of d ''code'' of None \<Rightarrow> Some None | Some (JStr s) \<Rightarrow> Some (Some s) | Some _ \<Rightarrow> None)"

definition ai_module_apology :: string where
  "ai_module_apology =
     ''My apologies. I encountered difficulty processing your request '' @
     ''with the AI module. Please check the logs for details.''"

text \<open>
  Lines 473 to 601, the body of \<open>async with message.channel.typing()\<close>. It is reached
  only through the guards of lines 416 to 471, which \<open>on_message\<close> below puts in front of
  it. The result is \<open>None\<close> only if a field of the payload is not a string, which
  \<open>call_ai_api\<close> never returns (\<open>handle_request_returns\<close> below).
\<close>

definition handle_request ::
    "(string \<Rightarrow> json option) \<Rightarrow> bot_env \<Rightarrow> author \<Rightarrow> channel \<Rightarrow> event list option" where
  "handle_request loads env message_author message_channel =
     (let user_info = get_user_info message_author message_channel
      in if user_info = [] then
           Some [Typing, Reply ''An internal error occurred while gathering context.'' False]
         else
           (case call_ai_api loads (env_post env) of
              (evs, ai_response_data) \<Rightarrow>
                (case ai_response_data of
                   None \<Rightarrow> Some (Typing # evs @ [Reply ai_module_apology False])
                 | Some d \<Rightarrow>
                     if d = [] then Some (Typing # evs @ [Reply ai_module_apology False])
                     else
                       (case (get_str d ''response'' ''I seem to be speechless.'',
                              get_str d ''feedback'' ''No feedback provided.'',
                              get_str d ''type'' ''text'',
                              get_code d) of
                          (Some response_text, Some feedback_text, Some response_type,
                           Some code_to_execute) \<Rightarrow>
                            Some (Typing # evs @
                                  dispatch env response_text response_type code_to_execute)
                        | _ \<Rightarrow> None))))"

subsection \<open>The guards of \<open>on_message\<close>\<close>

text \<open>\<open>s.replace(old, '', 1)\<close>: the first occurrence of \<open>old\<close> in \<open>s\<close> is removed.\<close>

fun remove_first :: "string \<Rightarrow> string \<Rightarrow> string" where
  "remove_first old [] = []"
| "remove_first old (c # cs) =
     (if startswith (c # cs) old then drop (length old) (c # cs) else c # remove_first old cs)"

text \<open>An entry of \<open>message.mentions\<close>: its id and its \<open>mention\<close> string.\<close>

record mention =
  mention_id :: int
  mention_text :: string

text \<open>
  What \<open>guild.fetch_member(id)\<close> gives: a member, or one of the exceptions of lines 460
  to 468.
\<close>

datatype fetch_result = Fetched member "guild option" | NotFound | Forbidden | FetchFailed

text \<open>
  The fields of the message that \<open>on_message\<close> reads; \<open>msg_mentioned\<close> is
  \<open>bot.user.mentioned_in(message)\<close>.
\<close>

record message =
  msg_author :: author
  msg_author_id :: int
  msg_author_bot :: bool
  msg_mentioned :: bool
  msg_content :: string
  msg_mentions :: "mention list"
  msg_guild :: "guild option"
  msg_channel :: channel

text \<open>
  The bot's own user id, the environment variable \<open>AI_TRIGGER_PREFIX\<close> if it is set, and
  the member lookup of the platform.
\<close>

record client =
  bot_user_id :: int
  ai_trigger_prefix :: "string option"
  fetch_member :: "guild \<Rightarrow> int \<Rightarrow> fetch_result"

text \<open>Lines 422 and 423.\<close>

definition trigger_prefix :: "client \<Rightarrow> string" where
  "trigger_prefix c = (case ai_trigger_prefix c of None \<Rightarrow> ''metarunx,'' | Some p \<Rightarrow> p)"

definition is_trigger :: "client \<Rightarrow> message \<Rightarrow> bool" where
  "is_trigger c message = startswith (lower (msg_content message)) (lower (trigger_prefix c))"

text \<open>Lines 439 to 442, the body of the loop over \<open>message.mentions\<close>.\<close>

definition remove_mention :: "client \<Rightarrow> string \<Rightarrow> mention \<Rightarrow> string" where
  "remove_mention c user_message_content mention =
     (if mention_id mention = bot_user_id c then
        strip (remove_first (''<@!'' @ str_int (mention_id mention) @ ''>'')
          (strip (remove_first (mention_text mention) user_message_content)))
      else user_message_content)"

text \<open>Lines 435 to 448, for a message that is a mention or starts with the trigger.\<close>

definition user_message_content :: "client \<Rightarrow> message \<Rightarrow> string" where
  "user_message_content c message =
     (if msg_mentioned message then
        strip (remove_first (''<@!'' @ str_int (bot_user_id c) @ ''>'')
          (strip (remove_first (''<@'' @ str_int (bot_user_id c) @ ''>'')
            (foldl (remove_mention c) (msg_content message) (msg_mentions message)))))
      else strip (drop (length (trigger_prefix c)) (msg_content message)))"

text \<open>
  \<open>on_message\<close>, lines 416 to 601. A message of the bot itself or of another bot is
  ignored; one that does not address the bot goes to \<open>bot.process_commands\<close>; one outside
  a guild or a guild channel is dropped without a reply; an empty request gets a reply
  that is deleted after ten seconds; an author who is not a \<open>Member\<close> is fetched first.
  Only then does the request reach \<open>handle_request\<close>.
\<close>

definition on_message ::
    "(string \<Rightarrow> json option) \<Rightarrow> bot_env \<Rightarrow> client \<Rightarrow> message \<Rightarrow> event list option" where
  "on_message loads env c message =
     (if msg_author_id message = bot_user_id c \<or> msg_author_bot message then Some []
      else if \<not> msg_mentioned message \<and> \<not> is_trigger c message then Some [ProcessCommands]
      else
        (case (msg_guild message, msg_channel message) of
           (Some g, GuildChannel pf) \<Rightarrow>
             if user_message_content c message = [] then
               Some [ReplyTemp ''Yes? You addressed me.'' False 10]
             else
               (case msg_author message of
                  Member mem mg \<Rightarrow> handle_request loads env (Member mem mg) (msg_channel message)
                | User \<Rightarrow>
                    (case fetch_member c g (msg_author_id message) of
                       Fetched mem mg \<Rightarrow>
                         map_option (\<lambda>evs. FetchMember # evs)
                           (handle_request loads env (Member mem mg) (msg_channel message))
                     | NotFound \<Rightarrow>
                         Some [FetchMember,
                               Reply ''Apologies, I couldn't verify your server details.'' False]
                     | Forbidden \<Rightarrow>
                         Some [FetchMember, Reply ''I lack permissions to verify your details.'' False]
                     | FetchFailed \<Rightarrow>
                         Some [FetchMember,
                               Reply ''An error occurred verifying your details.'' False]))
         | _ \<Rightarrow> Some []))"


section \<open>The statements of the specification\<close>

subsection \<open>Completion failures and the validated payload\<close>

text \<open>The string under a key, if the key is there and holds a string.\<close>

definition str_of :: "json option \<Rightarrow> string option" where
  "str_of v = (case v of Some (JStr s) \<Rightarrow> Some s | _ \<Rightarrow> None)"

text \<open>
  The envelope the completion service is expected to send: the content string at
  \<open>choices[0].message.content\<close>, not empty.
\<close>

definition envelope_content :: "json \<Rightarrow> string option" where
  "envelope_content w =
     (case w of
        JObj kvs \<Rightarrow>
          (case map_of kvs ''choices'' of
             Some (JArr (JObj choice # _)) \<Rightarrow>
               (case map_of choice ''message'' of
                  Some (JObj message) \<Rightarrow>
                    (case str_of (map_of message ''content'') of
                       Some s \<Rightarrow> if s = [] then None else Some s
                     | None \<Rightarrow> None)
                | _ \<Rightarrow> None)
           | _ \<Rightarrow> None)
      | _ \<Rightarrow> None)"

text \<open>
  A well-formed payload: an object with \<open>response\<close> and \<open>feedback\<close> strings, a \<open>type\<close>
  among the four tags and, for the tag \<open>code\<close>, a \<open>code\<close> string that is not empty once
  stripped.
\<close>

definition valid_payload :: "json \<Rightarrow> bool" where
  "valid_payload p =
     (case p of
        JObj d \<Rightarrow>
          str_of (map_of d ''response'') \<noteq> None \<and>
          str_of (map_of d ''feedback'') \<noteq> None \<and>
          (case str_of (map_of d ''type'') of
             None \<Rightarrow> False
           | Some t \<Rightarrow>
               t \<in> set [''text'', ''code'', ''audio'', ''rejection''] \<and>
               (if t = ''code''
                then (case str_of (map_of d ''code'') of
                        None \<Rightarrow> False
                      | Some c \<Rightarrow> strip c \<noteq> [])
                else True))
      | _ \<Rightarrow> False)"

text \<open>
  The failures of the completion call: a network error, a timeout or another exception;
  a status other than 200; a body that is not JSON; an envelope without the content
  string; a content that is not JSON; a payload that is not well-formed.
\<close>

definition completion_failure :: "(string \<Rightarrow> json option) \<Rightarrow> py_error + int \<times> string \<Rightarrow> bool" where
  "completion_failure loads post =
     (case post of
        Inl e \<Rightarrow> True
      | Inr (status, body) \<Rightarrow>
          status \<noteq> 200 \<or>
          (case loads body of
             None \<Rightarrow> True
           | Some w \<Rightarrow>
               (case envelope_content w of
                  None \<Rightarrow> True
                | Some s \<Rightarrow>
                    (case loads s of
                       None \<Rightarrow> True
                     | Some p \<Rightarrow> \<not> valid_payload p))))"



text \<open>
  The shape of a returned payload: as \<open>valid_payload\<close>, and the key \<open>code\<close> is present
  exactly for the tag \<open>code\<close>.
\<close>

definition payload_shape :: "dict \<Rightarrow> bool" where
  "payload_shape d =
     (str_of (map_of d ''response'') \<noteq> None \<and>
      str_of (map_of d ''feedback'') \<noteq> None \<and>
      (case str_of (map_of d ''type'') of
         None \<Rightarrow> False
       | Some t \<Rightarrow>
           t \<in> set [''text'', ''code'', ''audio'', ''rejection''] \<and>
           ((map_of d ''code'' \<noteq> None) = (t = ''code'')) \<and>
           (if t = ''code''
            then (case str_of (map_of d ''code'') of None \<Rightarrow> False | Some c \<Rightarrow> strip c \<noteq> [])
            else True)))"


subsection \<open>Sample inputs\<close>

text \<open>
  A parser that knows a handful of texts, for running the model: an envelope text is
  built around its content, with the quotes of the content escaped.
\<close>

definition json_escape :: "string \<Rightarrow> string" where
  "json_escape s = concat (map (\<lambda>c. if c = CHR 0x22 then [CHR 0x5C, CHR 0x22] else [c]) s)"

definition sample_body :: \<open>string \<Rightarrow> string\<close> where
  \<open>sample_body content =
     ''{"choices":[{"message":{"content":"'' @ json_escape content @
     ''"},"finish_reason":"stop"}]}''\<close>

definition sample_wrapper :: "string \<Rightarrow> json" where
  "sample_wrapper content =
     JObj [(''choices'', JArr [JObj [(''message'', JObj [(''content'', JStr content)]),
                                     (''finish_reason'', JStr ''stop'')]])]"

definition text_payload :: \<open>string\<close> where
  \<open>text_payload =
     ''{"response":"Hello.","feedback":"greeting","type":"text","code":"print(1)"}''\<close>

definition video_payload :: \<open>string\<close> where
  \<open>video_payload = ''{"response":"Hello.","feedback":"greeting","type":"video"}''\<close>

definition blank_code_payload :: \<open>string\<close> where
  \<open>blank_code_payload = ''{"response":"On it.","feedback":"allowed","type":"code","code":"  "}''\<close>

definition sample_loads :: \<open>string \<Rightarrow> json option\<close> where
  \<open>sample_loads s =
     (if s = ''{"error":"overloaded"}'' then Some (JObj [(''error'', JStr ''overloaded'')])
      else if s = sample_body ''{oops'' then Some (sample_wrapper ''{oops'')
      else if s = sample_body text_payload then Some (sample_wrapper text_payload)
      else if s = sample_body video_payload then Some (sample_wrapper video_payload)
      else if s = sample_body blank_code_payload then Some (sample_wrapper blank_code_payload)
      else if s = text_payload then
        Some (JObj [(''response'', JStr ''Hello.''), (''feedback'', JStr ''greeting''),
                    (''type'', JStr ''text''), (''code'', JStr ''print(1)'')])
      else if s = video_payload then
        Some (JObj [(''response'', JStr ''Hello.''), (''feedback'', JStr ''greeting''),
                    (''type'', JStr ''video'')])
      else if s = blank_code_payload then
        Some (JObj [(''response'', JStr ''On it.''), (''feedback'', JStr ''allowed''),
                    (''type'', JStr ''code''), (''code'', JStr ''  '')])
      else None)\<close>


subsection \<open>Reading a trace\<close>

text \<open>
  The texts and the \<open>mention_author\<close> flags of the replies of a trace, in order; the
  messages of a trace are its replies and its plain sends.
\<close>

fun reply_texts :: "event list \<Rightarrow> string list" where
  "reply_texts [] = []"
| "reply_texts (Reply t m # es) = t # reply_texts es"
| "reply_texts (e # es) = reply_texts es"

fun reply_mentions :: "event list \<Rightarrow> bool list" where
  "reply_mentions [] = []"
| "reply_mentions (Reply t m # es) = m # reply_mentions es"
| "reply_mentions (e # es) = reply_mentions es"

definition is_reply :: "event \<Rightarrow> bool" where
  "is_reply e = (case e of Reply t m \<Rightarrow> True | _ \<Rightarrow> False)"

definition is_send :: "event \<Rightarrow> bool" where
  "is_send e = (case e of Send t \<Rightarrow> True | SendFile b n \<Rightarrow> True | _ \<Rightarrow> False)"

definition messages :: "event list \<Rightarrow> event list" where
  "messages evs = filter (\<lambda>e. is_reply e \<or> is_send e) evs"

text \<open>
  The first message of the trace is a reply and every later message is a plain send.
\<close>

definition first_reply_then_sends :: "event list \<Rightarrow> bool" where
  "first_reply_then_sends evs =
     (case messages evs of [] \<Rightarrow> False | e # es \<Rightarrow> is_reply e \<and> list_all is_send es)"

text \<open>An environment in which the audio endpoint and Jishaku work.\<close>

definition sample_env :: bot_env where
  "sample_env =
     \<lparr>env_post = Inl TimeoutError,
      env_get = (\<lambda>url. Inr \<lparr>resp_status = 200, resp_content_type = Some ''audio/mpeg'',
                              resp_read = Inr [73, 68, 51]\<rparr>),
      env_jsk_cog = True, env_py_command = True, env_ctx = True,
      env_invoke = (\<lambda>code. InvokeOk)\<rparr>"




subsection \<open>Resolution, audio answers and more sample inputs\<close>


text \<open>
  The answer has status 200 and a content type that contains \<open>audio\<close>; the header value
  is compared in lower case, and a missing header counts as the empty string.
\<close>

definition audio_ok :: "audio_response \<Rightarrow> bool" where
  "audio_ok r =
     (resp_status r = 200 \<and>
      str_contains (lower (case resp_content_type r of None \<Rightarrow> [] | Some v \<Rightarrow> v)) ''audio'')"

text \<open>Audio endpoints that answer 404, an HTML page, and an empty audio body.\<close>

definition sample_get_404 :: "string \<Rightarrow> py_error + audio_response" where
  "sample_get_404 url =
     Inr \<lparr>resp_status = 404, resp_content_type = Some ''text/plain'', resp_read = Inr [78, 111]\<rparr>"

definition sample_get_html :: "string \<Rightarrow> py_error + audio_response" where
  "sample_get_html url =
     Inr \<lparr>resp_status = 200, resp_content_type = Some ''text/html'', resp_read = Inr [60, 104]\<rparr>"

definition sample_get_empty :: "string \<Rightarrow> py_error + audio_response" where
  "sample_get_empty url =
     Inr \<lparr>resp_status = 200, resp_content_type = Some ''audio/mpeg'', resp_read = Inr []\<rparr>"

definition hello_url :: string where
  "hello_url = ''https://text.pollinations.ai/Hello?model=openai-audio&voice=nova''"

text \<open>A guild whose bot has the role \<open>mod\<close> and whose member has only \<open>@everyone\<close>.\<close>

definition everyone_role :: role where
  "everyone_role = \<lparr>role_id = 100, role_name = ''@everyone'', position = 0\<rparr>"

definition mod_role :: role where
  "mod_role = \<lparr>role_id = 7, role_name = ''mod'', position = 3\<rparr>"

definition sample_bot :: member where
  "sample_bot =
     \<lparr>member_id = 2, member_str = ''metarunx'', nick = None, global_name = None,
      roles = [everyone_role, mod_role], top_role = mod_role,
      guild_permissions = [(''kick_members'', True), (''ban_members'', False)]\<rparr>"

definition sample_member :: member where
  "sample_member =
     \<lparr>member_id = 1, member_str = ''alice'', nick = Some ''Al'', global_name = None,
      roles = [everyone_role], top_role = everyone_role,
      guild_permissions = [(''send_messages'', True)]\<rparr>"

definition sample_guild :: guild where
  "sample_guild = \<lparr>guild_id = 100, owner_id = 9, me = sample_bot\<rparr>"

definition sample_channel :: channel where
  "sample_channel = GuildChannel (\<lambda>m. [(''send_messages'', True)])"

subsection \<open>Requests and their authors\<close>

text \<open>The message has a guild and comes from a guild channel (line 431).\<close>

definition in_guild :: "message \<Rightarrow> bool" where
  "in_guild m =
     (msg_guild m \<noteq> None \<and>
      (case msg_channel m of GuildChannel pf \<Rightarrow> True | OtherChannel \<Rightarrow> False))"

text \<open>The message is not from a bot and mentions the bot or starts with the trigger.\<close>

definition addressed :: "client \<Rightarrow> message \<Rightarrow> bool" where
  "addressed c m =
     (msg_author_id m \<noteq> bot_user_id c \<and> \<not> msg_author_bot m \<and>
      (msg_mentioned m \<or> is_trigger c m))"

text \<open>A request: addressed to the bot, in a guild channel, with a text left to answer.\<close>

definition request :: "client \<Rightarrow> message \<Rightarrow> bool" where
  "request c m = (addressed c m \<and> in_guild m \<and> user_message_content c m \<noteq> [])"












section \<open>Properties\<close>

subsection \<open>The completion client\<close>

lemma has_str_iff: "has_str d k = (str_of (map_of d k) \<noteq> None)"
  by (simp add: has_str_def str_of_def split: option.splits json.splits)

lemma str_of_Some: "str_of v = Some s \<longleftrightarrow> v = Some (JStr s)"
  by (simp add: str_of_def split: option.splits json.splits)

lemma str_of_None_code: "str_of (map_of d k) = None \<Longrightarrow> map_of d k = None \<or> \<not> has_str d k"
  by (simp add: has_str_iff)

lemma validate_content_obj:
  "validate_content (JObj d) =
     (if str_of (map_of d ''response'') \<noteq> None \<and> str_of (map_of d ''feedback'') \<noteq> None
      then (case str_of (map_of d ''type'') of
              None \<Rightarrow> None
            | Some t \<Rightarrow>
                if t \<in> set [''text'', ''code'', ''audio'', ''rejection''] then
                  if t = ''code'' then
                    (case str_of (map_of d ''code'') of
                       None \<Rightarrow> None
                     | Some c \<Rightarrow> if strip c = [] then None else Some d)
                  else if map_of d ''code'' \<noteq> None then Some (dict_del d ''code'')
                  else Some d
                else None)
      else None)"
proof (cases "str_of (map_of d ''type'')")
  case None
  then show ?thesis by (simp add: validate_content_def has_str_iff)
next
  case (Some t)
  then have t: "map_of d ''type'' = Some (JStr t)" by (simp add: str_of_Some)
  have inj: "(Some (JStr t) \<in> Some ` JStr ` S) = (t \<in> S)" for S by auto
  show ?thesis
  proof (cases "str_of (map_of d ''code'')")
    case None
    then show ?thesis using Some t inj
      by (simp add: validate_content_def has_str_iff del: set_simps)
  next
    case (Some c)
    then have c: "map_of d ''code'' = Some (JStr c)" by (simp add: str_of_Some)
    show ?thesis using Some \<open>str_of (map_of d ''type'') = Some t\<close> t c inj
      by (simp add: validate_content_def has_str_iff del: set_simps)
  qed
qed


lemma valid_payload_obj:
  "valid_payload (JObj d) =
     (str_of (map_of d ''response'') \<noteq> None \<and> str_of (map_of d ''feedback'') \<noteq> None \<and>
      (case str_of (map_of d ''type'') of
         None \<Rightarrow> False
       | Some t \<Rightarrow>
           t \<in> set [''text'', ''code'', ''audio'', ''rejection''] \<and>
           (if t = ''code''
            then (case str_of (map_of d ''code'') of None \<Rightarrow> False | Some c \<Rightarrow> strip c \<noteq> [])
            else True)))"
  by (simp add: valid_payload_def del: set_simps)

lemma validate_content_not_obj: "\<not> (\<exists>d. p = JObj d) \<Longrightarrow> validate_content p = None"
  by (cases p) (simp_all add: validate_content_def)

lemma valid_payload_not_obj: "\<not> (\<exists>d. p = JObj d) \<Longrightarrow> \<not> valid_payload p"
  by (cases p) (simp_all add: valid_payload_def)

lemma validate_content_iff: "(validate_content p \<noteq> None) = valid_payload p"
proof (cases "\<exists>d. p = JObj d")
  case True
  then obtain d where p: "p = JObj d" by blast
  show ?thesis unfolding p validate_content_obj valid_payload_obj
    by (simp split: option.splits del: set_simps)
next
  case False
  then show ?thesis using validate_content_not_obj[of p] valid_payload_not_obj[of p] by simp
qed

lemma and_then_InrE:
  assumes "and_then x f = Inr v"
  obtains u where "x = Inr u" and "f u = Inr v"
  using assms by (cases x) (simp_all add: and_then_def)

lemma py_getitem_InrD:
  "py_getitem x k = Inr v \<Longrightarrow> \<exists>kvs. x = JObj kvs \<and> map_of kvs k = Some v"
  by (cases x) (simp_all add: py_getitem_def split: option.splits)

lemma py_get_InrD:
  "py_get x k dflt = Inr v \<Longrightarrow>
   \<exists>kvs. x = JObj kvs \<and> v = (case map_of kvs k of None \<Rightarrow> dflt | Some u \<Rightarrow> u)"
  by (cases x) (simp_all add: py_get_def)

lemma py_first_objD:
  "py_first x = Inr (JObj c) \<Longrightarrow> \<exists>rest. x = JArr (JObj c # rest)"
  by (cases x) (simp_all add: py_first_def split: list.splits)

lemma json_loads_cases:
  "json_loads loads x = Inr p \<Longrightarrow> \<exists>s. x = JStr s \<and> loads s = Some p"
  by (cases x) (simp_all add: json_loads_def split: option.splits)

lemma unwrap_response_SomeD:
  assumes "unwrap_response loads body = Inr (Some d)"
  shows "\<exists>w s p. loads body = Some w \<and> envelope_content w = Some s \<and> loads s = Some p \<and>
           validate_content p = Some d"
proof (cases "loads body")
  case None
  with assms show ?thesis by (simp add: unwrap_response_def)
next
  case (Some w)
  let ?tail = "\<lambda>nonempty.
          if nonempty then
            and_then (py_getitem w ''choices'') (\<lambda>choices.
            and_then (py_first choices) (\<lambda>choice.
            and_then (py_get choice ''message'' (JObj [])) (\<lambda>message_obj.
            and_then (py_get message_obj ''content'' JNull) (\<lambda>message_content_str.
            if truthy message_content_str then
              (case json_loads loads message_content_str of
                 Inl JSONDecodeError \<Rightarrow> Inr None
               | Inl e \<Rightarrow> Inl e
               | Inr parsed_content \<Rightarrow> Inr (validate_content parsed_content))
            else Inr None))))
          else Inr None"
  from assms Some obtain has_choices nonempty where
    "?tail nonempty = Inr (Some d)"
    by (auto simp: unwrap_response_def elim!: and_then_InrE)
  then have a: "and_then (py_getitem w ''choices'') (\<lambda>choices.
            and_then (py_first choices) (\<lambda>choice.
            and_then (py_get choice ''message'' (JObj [])) (\<lambda>message_obj.
            and_then (py_get message_obj ''content'' JNull) (\<lambda>message_content_str.
            if truthy message_content_str then
              (case json_loads loads message_content_str of
                 Inl JSONDecodeError \<Rightarrow> Inr None
               | Inl e \<Rightarrow> Inl e
               | Inr parsed_content \<Rightarrow> Inr (validate_content parsed_content))
            else Inr None)))) = Inr (Some d)"
    by (simp split: if_splits)
  from a obtain choices where c1: "py_getitem w ''choices'' = Inr choices"
    and a2: "and_then (py_first choices) (\<lambda>choice.
            and_then (py_get choice ''message'' (JObj [])) (\<lambda>message_obj.
            and_then (py_get message_obj ''content'' JNull) (\<lambda>message_content_str.
            if truthy message_content_str then
              (case json_loads loads message_content_str of
                 Inl JSONDecodeError \<Rightarrow> Inr None
               | Inl e \<Rightarrow> Inl e
               | Inr parsed_content \<Rightarrow> Inr (validate_content parsed_content))
            else Inr None))) = Inr (Some d)"
    by (rule and_then_InrE)
  from a2 obtain choice where c2: "py_first choices = Inr choice"
    and a3: "and_then (py_get choice ''message'' (JObj [])) (\<lambda>message_obj.
            and_then (py_get message_obj ''content'' JNull) (\<lambda>message_content_str.
            if truthy message_content_str then
              (case json_loads loads message_content_str of
                 Inl JSONDecodeError \<Rightarrow> Inr None
               | Inl e \<Rightarrow> Inl e
               | Inr parsed_content \<Rightarrow> Inr (validate_content parsed_content))
            else Inr None)) = Inr (Some d)"
    by (rule and_then_InrE)
  from a3 obtain message_obj where c3: "py_get choice ''message'' (JObj []) = Inr message_obj"
    and a4: "and_then (py_get message_obj ''content'' JNull) (\<lambda>message_content_str.
            if truthy message_content_str then
              (case json_loads loads message_content_str of
                 Inl JSONDecodeError \<Rightarrow> Inr None
               | Inl e \<Rightarrow> Inl e
               | Inr parsed_content \<Rightarrow> Inr (validate_content parsed_content))
            else Inr None) = Inr (Some d)"
    by (rule and_then_InrE)
  from a4 obtain content where c4: "py_get message_obj ''content'' JNull = Inr content"
    and a5: "(if truthy content then
              (case json_loads loads content of
                 Inl JSONDecodeError \<Rightarrow> Inr None
               | Inl e \<Rightarrow> Inl e
               | Inr parsed_content \<Rightarrow> Inr (validate_content parsed_content))
            else Inr None) = Inr (Some d)"
    by (rule and_then_InrE)
  from a5 have t: "truthy content" by (simp split: if_splits)
  with a5 obtain p where c5: "json_loads loads content = Inr p" and v: "validate_content p = Some d"
    by (cases "json_loads loads content") (auto split: py_error.splits)
  from c5 obtain s where s: "content = JStr s" "loads s = Some p"
    using json_loads_cases by blast
  from t s have ne: "s \<noteq> []" by (simp add: truthy_def)
  from c1 obtain kvs where w: "w = JObj kvs" "map_of kvs ''choices'' = Some choices"
    using py_getitem_InrD by blast
  from c3 obtain c where ch: "choice = JObj c"
    "message_obj = (case map_of c ''message'' of None \<Rightarrow> JObj [] | Some u \<Rightarrow> u)"
    using py_get_InrD by blast
  from c2 ch obtain rest where cs: "choices = JArr (JObj c # rest)"
    using py_first_objD by blast
  from c4 obtain m where m: "message_obj = JObj m"
    "content = (case map_of m ''content'' of None \<Rightarrow> JNull | Some u \<Rightarrow> u)"
    using py_get_InrD by blast
  from m(2) s(1) have mc: "map_of m ''content'' = Some (JStr s)"
    by (simp split: option.splits)
  then have "m \<noteq> []" by auto
  with ch(2) m(1) have mm: "map_of c ''message'' = Some (JObj m)"
    by (simp split: option.splits)
  have "envelope_content w = Some s"
    using w cs mm mc ne by (simp add: envelope_content_def str_of_def)
  with Some s v show ?thesis by blast
qed

lemma map_of_dict_del: "map_of (dict_del d k) k' = (if k' = k then None else map_of d k')"
  by (induction d) (auto simp: dict_del_def)

lemma validate_content_shape:
  assumes "validate_content p = Some d"
  shows "payload_shape d"
proof -
  from assms obtain d0 where p: "p = JObj d0"
    using validate_content_not_obj[of p] by fastforce
  from assms have vp: "valid_payload (JObj d0)"
    using validate_content_iff[of p] p by simp
  then obtain t where t: "str_of (map_of d0 ''type'') = Some t"
    by (auto simp: valid_payload_obj simp del: set_simps split: option.splits)
  show ?thesis
  proof (cases "t = ''code''")
    case True
    with assms p t vp have "d = d0"
      by (simp add: validate_content_obj valid_payload_obj del: set_simps split: option.splits if_splits)
    with vp t True show ?thesis
      by (auto simp add: payload_shape_def valid_payload_obj str_of_def simp del: set_simps split: option.splits)
  next
    case False
    show ?thesis
    proof (cases "map_of d0 ''code'' = None")
      case True
      with assms p t vp False have "d = d0"
        by (simp add: validate_content_obj valid_payload_obj del: set_simps split: option.splits if_splits)
      with vp t False True show ?thesis
        by (simp add: payload_shape_def valid_payload_obj del: set_simps)
    next
      case nn: False
      with assms p t vp False have "d = dict_del d0 ''code''"
        by (simp add: validate_content_obj valid_payload_obj del: set_simps split: option.splits if_splits)
      with vp t False show ?thesis
        by (simp add: payload_shape_def valid_payload_obj map_of_dict_del del: set_simps)
    qed
  qed
qed


text \<open>
  C1. Every failure of the completion call gives the same null result: a network error,
  a timeout or another exception, a status other than 200, a body or a content that is
  not JSON, an envelope without content, missing or wrong-typed keys, a \<open>type\<close> outside
  the four tags, and a missing, non-string or blank \<open>code\<close> under the tag \<open>code\<close> all make
  \<open>call_ai_api\<close> return \<open>None\<close>.
\<close>

theorem call_ai_api_failure_is_null:
  assumes "completion_failure loads post"
  shows "snd (call_ai_api loads post) = None"
proof (rule ccontr)
  assume "snd (call_ai_api loads post) \<noteq> None"
  then obtain d where d: "snd (call_ai_api loads post) = Some d" by blast
  then obtain status body where post: "post = Inr (status, body)"
    by (cases post) (auto simp: call_ai_api_def)
  from d post have st: "status = 200"
    by (simp add: call_ai_api_def split: if_splits)
  from d post st have "unwrap_response loads body = Inr (Some d)"
    by (simp add: call_ai_api_def split: sum.splits)
  then obtain w s p where "loads body = Some w" "envelope_content w = Some s" "loads s = Some p"
      "validate_content p = Some d"
    using unwrap_response_SomeD by blast
  moreover from this have "valid_payload p" using validate_content_iff[of p] by simp
  ultimately have "\<not> completion_failure loads post"
    using post st by (simp add: completion_failure_def)
  with assms show False by simp
qed



theorem call_ai_api_failure_is_null_witness:
  \<open>snd (call_ai_api sample_loads (Inl TimeoutError)) = None \<and>
   snd (call_ai_api sample_loads (Inl ClientError)) = None \<and>
   snd (call_ai_api sample_loads (Inr (500, ''Internal Server Error''))) = None \<and>
   snd (call_ai_api sample_loads (Inr (200, ''<html>Bad gateway</html>''))) = None \<and>
   snd (call_ai_api sample_loads (Inr (200, ''{"error":"overloaded"}''))) = None \<and>
   snd (call_ai_api sample_loads (Inr (200, sample_body ''{oops''))) = None \<and>
   snd (call_ai_api sample_loads (Inr (200, sample_body video_payload))) = None \<and>
   snd (call_ai_api sample_loads (Inr (200, sample_body blank_code_payload))) = None\<close>
proof -
  have h1: "completion_failure sample_loads (Inl TimeoutError)"
    by (simp add: completion_failure_def)
  have h2: "completion_failure sample_loads (Inl ClientError)"
    by (simp add: completion_failure_def)
  have h3: "completion_failure sample_loads (Inr (500, ''Internal Server Error''))"
    by (simp add: completion_failure_def)
  have h4: "completion_failure sample_loads (Inr (200, ''<html>Bad gateway</html>''))"
    by code_simp
  have h5: \<open>completion_failure sample_loads (Inr (200, ''{"error":"overloaded"}''))\<close>
    by code_simp
  have h6: "completion_failure sample_loads (Inr (200, sample_body ''{oops''))"
    by code_simp
  have h7: "completion_failure sample_loads (Inr (200, sample_body video_payload))"
    by code_simp
  have h8: "completion_failure sample_loads (Inr (200, sample_body blank_code_payload))"
    by code_simp
  show ?thesis
    by (intro conjI call_ai_api_failure_is_null h1 h2 h3 h4 h5 h6 h7 h8)
qed

text \<open>
  C2. Every value \<open>call_ai_api\<close> returns other than \<open>None\<close> is an object whose
  \<open>response\<close> and \<open>feedback\<close> are strings, whose \<open>type\<close> is one of \<open>text\<close>, \<open>code\<close>,
  \<open>audio\<close> and \<open>rejection\<close>, and which has a \<open>code\<close> key exactly when the type is \<open>code\<close>,
  then a string that is not empty once stripped.
\<close>

theorem call_ai_api_result_shape:
  assumes "snd (call_ai_api loads post) = Some d"
  shows "payload_shape d"
proof -
  from assms obtain status body where post: "post = Inr (status, body)"
    by (cases post) (auto simp: call_ai_api_def)
  from assms post have st: "status = 200"
    by (simp add: call_ai_api_def split: if_splits)
  from assms post st have "unwrap_response loads body = Inr (Some d)"
    by (simp add: call_ai_api_def split: sum.splits)
  then obtain p where "validate_content p = Some d"
    using unwrap_response_SomeD by blast
  then show ?thesis by (rule validate_content_shape)
qed


theorem call_ai_api_result_shape_witness:
  "snd (call_ai_api sample_loads (Inr (200, sample_body text_payload))) =
     Some [(''response'', JStr ''Hello.''), (''feedback'', JStr ''greeting''),
           (''type'', JStr ''text'')] \<and>
   payload_shape [(''response'', JStr ''Hello.''), (''feedback'', JStr ''greeting''),
                  (''type'', JStr ''text'')]"
proof -
  have h: "snd (call_ai_api sample_loads (Inr (200, sample_body text_payload))) =
     Some [(''response'', JStr ''Hello.''), (''feedback'', JStr ''greeting''),
           (''type'', JStr ''text'')]"
    by code_simp
  show ?thesis
    by (intro conjI h call_ai_api_result_shape[OF h])
qed

subsection \<open>Splitting long replies\<close>

lemma py_range_0: "py_range 0 n c = map (\<lambda>k. k * c) [0..<(n + c - 1) div c]"
  by (simp add: py_range_def)

lemma split_parts_eq:
  "split_parts s = map (\<lambda>k. take 1990 (drop (k * 1990) s)) [0..<(length s + 1989) div 1990]"
  by (simp add: split_parts_def py_range_0 slice_def comp_def add.commute)

lemma concat_takes: "concat (map (\<lambda>k. take c (drop (k * c) s)) [0..<m]) = take (m * c) s"
proof (induction m)
  case 0
  then show ?case by simp
next
  case (Suc m)
  have "take (m * c) s @ take c (drop (m * c) s) = take (m * c + c) s"
    by (simp add: take_add)
  with Suc show ?case by (simp add: add.commute)
qed

lemma concat_split_parts: "concat (split_parts s) = s"
proof -
  have "(length s + 1989) mod 1990 < 1990" by simp
  moreover have "(length s + 1989) div 1990 * 1990 + (length s + 1989) mod 1990 = length s + 1989"
    by (rule div_mult_mod_eq)
  ultimately have "length s \<le> ((length s + 1989) div 1990) * 1990" by linarith
  then show ?thesis by (simp add: split_parts_eq concat_takes)
qed

lemma length_split_parts: "length (split_parts s) = (length s + 1989) div 1990"
  by (simp add: split_parts_eq)

lemma split_parts_bounded: "list_all (\<lambda>p. length p \<le> 1990) (split_parts s)"
  by (simp add: split_parts_eq list_all_iff)

lemma reply_texts_chunks:
  "reply_texts (concat (map (\<lambda>(i, part). [Reply part (f i), Sleep]) (enumerate n ps))) = ps"
  by (induction ps arbitrary: n) simp_all

lemma reply_mentions_chunks:
  "reply_mentions (concat (map (\<lambda>(i, part). [Reply part (f i), Sleep]) (enumerate n ps))) =
     map f [n..<n + length ps]"
proof (induction ps arbitrary: n)
  case Nil
  then show ?case by simp
next
  case (Cons p ps)
  have "[n..<n + length (p # ps)] = n # [Suc n..<n + length (p # ps)]"
    by (rule upt_conv_Cons) simp
  then have "[n..<n + length (p # ps)] = n # [Suc n..<Suc n + length ps]"
    by simp
  with Cons[of "Suc n"] show ?case by simp
qed

lemma messages_chunks:
  "list_all is_reply
     (messages (concat (map (\<lambda>(i, part). [Reply part (f i), Sleep]) (enumerate n ps))))"
  by (induction ps arbitrary: n) (simp_all add: messages_def is_reply_def is_send_def)

lemma dispatch_short:
  "t \<in> set [''text'', ''rejection''] \<Longrightarrow> length r \<le> 2000 \<Longrightarrow>
   dispatch env r t code = [Reply r False]"
  by (simp add: dispatch_def del: set_simps)

lemma dispatch_long:
  "t \<in> set [''text'', ''rejection''] \<Longrightarrow> 2000 < length r \<Longrightarrow>
   dispatch env r t code =
     concat (map (\<lambda>(i, part). [Reply part (\<not> i > 0), Sleep]) (enumerate 0 (split_parts r)))"
  by (simp add: dispatch_def del: set_simps)

text \<open>
  C3. A \<open>text\<close> response of at most 2000 characters is sent as one reply holding exactly
  that string; a response of 4200 characters is sent as 3 replies of at most 1990
  characters each whose texts, put together in order, are the response.
\<close>

theorem text_response_round_trip:
  "(length response_text \<le> 2000 \<longrightarrow>
      dispatch env response_text ''text'' code = [Reply response_text False]) \<and>
   (length response_text = 4200 \<longrightarrow>
      length (reply_texts (dispatch env response_text ''text'' code)) = 3 \<and>
      list_all (\<lambda>p. length p \<le> 1990) (reply_texts (dispatch env response_text ''text'' code)) \<and>
      concat (reply_texts (dispatch env response_text ''text'' code)) = response_text)"
proof (intro conjI impI)
  assume "length response_text \<le> 2000"
  then show "dispatch env response_text ''text'' code = [Reply response_text False]"
    by (simp add: dispatch_short)
next
  assume l: "length response_text = 4200"
  then have d: "reply_texts (dispatch env response_text ''text'' code) = split_parts response_text"
    by (simp add: dispatch_long reply_texts_chunks)
  show "length (reply_texts (dispatch env response_text ''text'' code)) = 3"
    unfolding d by (simp add: length_split_parts l)
  show "list_all (\<lambda>p. length p \<le> 1990) (reply_texts (dispatch env response_text ''text'' code))"
    unfolding d by (rule split_parts_bounded)
  show "concat (reply_texts (dispatch env response_text ''text'' code)) = response_text"
    unfolding d by (rule concat_split_parts)
qed

theorem text_response_round_trip_witness:
  "dispatch sample_env ''Hello.'' ''text'' None = [Reply ''Hello.'' False] \<and>
   length (reply_texts (dispatch sample_env (replicate 4200 (CHR ''x'')) ''text'' None)) = 3 \<and>
   list_all (\<lambda>p. length p \<le> 1990)
     (reply_texts (dispatch sample_env (replicate 4200 (CHR ''x'')) ''text'' None)) \<and>
   concat (reply_texts (dispatch sample_env (replicate 4200 (CHR ''x'')) ''text'' None)) =
     replicate 4200 (CHR ''x'')"
proof -
  have short: "length ''Hello.'' \<le> 2000" by simp
  have long: "length (replicate 4200 (CHR ''x'')) = 4200" by simp
  note a = text_response_round_trip[of "''Hello.''" sample_env None, THEN conjunct1, THEN mp, OF short]
  note b = text_response_round_trip[of "replicate 4200 (CHR ''x'')" sample_env None,
      THEN conjunct2, THEN mp, OF long]
  show ?thesis
    by (intro conjI a b[THEN conjunct1] b[THEN conjunct2, THEN conjunct1]
        b[THEN conjunct2, THEN conjunct2])
qed

text \<open>
  C6, as the code has it. When a \<open>text\<close> or \<open>rejection\<close> response is split, every chunk is
  sent with \<open>message.reply\<close>, in order; the reply of the first chunk mentions the author
  and the replies of the later chunks do not.
\<close>

theorem chunks_are_replies:
  assumes "response_type \<in> set [''text'', ''rejection'']" and "2000 < length response_text"
  shows "list_all is_reply (messages (dispatch env response_text response_type code)) \<and>
         reply_texts (dispatch env response_text response_type code) = split_parts response_text \<and>
         reply_mentions (dispatch env response_text response_type code) =
           True # replicate (length (split_parts response_text) - 1) False"
proof -
  let ?n = "length (split_parts response_text)"
  have n: "2 \<le> ?n" using assms(2) by (simp add: length_split_parts)
  have "map (\<lambda>i. \<not> i > 0) [0..<0 + ?n] = True # replicate (?n - 1) False"
  proof -
    have "0 < ?n" using n by linarith
    then have "[0..<?n] = 0 # [Suc 0..<?n]" by (rule upt_conv_Cons)
    moreover have "map (\<lambda>i. \<not> i > 0) [Suc 0..<?n] = replicate (?n - 1) False"
      by (rule nth_equalityI) simp_all
    ultimately show ?thesis by simp
  qed
  then show ?thesis
    using assms by (simp add: dispatch_long messages_chunks reply_texts_chunks reply_mentions_chunks del: set_simps)
qed


theorem chunks_are_replies_witness:
  "list_all is_reply
     (messages (dispatch sample_env (replicate 2001 (CHR ''a'')) ''rejection'' None)) \<and>
   reply_texts (dispatch sample_env (replicate 2001 (CHR ''a'')) ''rejection'' None) =
     split_parts (replicate 2001 (CHR ''a'')) \<and>
   reply_mentions (dispatch sample_env (replicate 2001 (CHR ''a'')) ''rejection'' None) =
     True # replicate (length (split_parts (replicate 2001 (CHR ''a''))) - 1) False"
proof -
  have h1: "''rejection'' \<in> set [''text'', ''rejection'']" by simp
  have h2: "2000 < length (replicate 2001 (CHR ''a''))" by simp
  show ?thesis by (rule chunks_are_replies[OF h1 h2])
qed

text \<open>
  C6 as stated fails: for a response of 2001 characters the second chunk is a reply too,
  not a plain send.
\<close>

theorem later_chunks_are_not_sends:
  "\<not> first_reply_then_sends (dispatch sample_env (replicate 2001 (CHR ''a'')) ''text'' None)"
proof -
  let ?r = "replicate 2001 (CHR ''a'')"
  have two: "[0..<(2::nat)] = [0, 1]" by (simp add: numeral_2_eq_2)
  have ps: "split_parts ?r = [replicate 1990 (CHR ''a''), replicate 11 (CHR ''a'')]"
    by (simp add: split_parts_eq two)
  have "dispatch sample_env ?r ''text'' None =
      [Reply (replicate 1990 (CHR ''a'')) True, Sleep, Reply (replicate 11 (CHR ''a'')) False, Sleep]"
    by (simp add: dispatch_long ps enumerate_eq_zip two)
  then show ?thesis
    by (simp add: first_reply_then_sends_def messages_def is_reply_def is_send_def)
qed

subsection \<open>Cleaning fenced code\<close>





















subsection \<open>The request handler is total\<close>

lemma str_of_SomeD: "str_of v \<noteq> None \<Longrightarrow> \<exists>s. v = Some (JStr s)"
  by (cases v; cases "the v") (simp_all add: str_of_def)

lemma get_str_shape: "str_of (map_of d k) \<noteq> None \<Longrightarrow> get_str d k dflt \<noteq> None"
  by (drule str_of_SomeD) (auto simp: get_str_def)

lemma get_code_shape:
  assumes "payload_shape d"
  shows "get_code d \<noteq> None"
proof -
  from assms obtain t where t: "str_of (map_of d ''type'') = Some t"
    by (cases "str_of (map_of d ''type'')") (simp_all add: payload_shape_def)
  show ?thesis
  proof (cases "t = ''code''")
    case True
    with assms t have "str_of (map_of d ''code'') \<noteq> None"
      by (simp add: payload_shape_def split: option.splits)
    then obtain c where "map_of d ''code'' = Some (JStr c)"
      using str_of_SomeD by blast
    then show ?thesis by (simp add: get_code_def)
  next
    case False
    with assms t have "map_of d ''code'' = None"
      by (simp add: payload_shape_def)
    then show ?thesis by (simp add: get_code_def)
  qed
qed

lemma call_ai_api_payload:
  assumes "call_ai_api loads post = (evs, Some d)"
  shows "payload_shape d"
proof -
  from assms have s: "snd (call_ai_api loads post) = Some d" by simp
  then obtain status body where post: "post = Inr (status, body)"
    by (cases post) (auto simp: call_ai_api_def)
  from s post have st: "status = 200"
    by (simp add: call_ai_api_def split: if_splits)
  from s post st have "unwrap_response loads body = Inr (Some d)"
    by (simp add: call_ai_api_def split: sum.splits)
  then obtain p where "validate_content p = Some d"
    using unwrap_response_SomeD by blast
  then show ?thesis by (rule validate_content_shape)
qed

text \<open>The handler always returns a trace: the payloads of \<open>call_ai_api\<close> have string fields.\<close>

lemma handle_request_returns: "\<exists>evs. handle_request loads env a ch = Some evs"
proof (cases "get_user_info a ch = []")
  case True
  then show ?thesis by (simp add: handle_request_def)
next
  case False
  obtain evs r where c: "call_ai_api loads (env_post env) = (evs, r)"
    by (cases "call_ai_api loads (env_post env)")
  show ?thesis
  proof (cases r)
    case None
    with False c show ?thesis by (simp add: handle_request_def)
  next
    case (Some d)
    with c have sh: "payload_shape d" by (simp add: call_ai_api_payload)
    then have "str_of (map_of d ''response'') \<noteq> None" "str_of (map_of d ''feedback'') \<noteq> None"
      "str_of (map_of d ''type'') \<noteq> None"
      by (auto simp: payload_shape_def split: option.splits)
    then obtain r1 r2 r3 where
      g: "get_str d ''response'' ''I seem to be speechless.'' = Some r1"
         "get_str d ''feedback'' ''No feedback provided.'' = Some r2"
         "get_str d ''type'' ''text'' = Some r3"
      using get_str_shape by (metis not_Some_eq)
    from sh obtain r4 where g4: "get_code d = Some r4"
      using get_code_shape by blast
    from False c Some g g4 show ?thesis
      by (simp add: handle_request_def)
  qed
qed


text \<open>So does \<open>on_message\<close>, for every message.\<close>

lemma on_message_returns: "\<exists>evs. on_message loads env c m = Some evs"
  by (simp add: on_message_def handle_request_returns
           split: option.splits channel.splits author.splits fetch_result.splits)


subsection \<open>The snapshot builder\<close>











lemma map_of_user_pos:
  "map_of (get_user_info (Member m (Some g)) (GuildChannel pf)) ''userTopRolePosition'' =
     Some (JInt (get_role_pos g (Some (top_role m))))"
  by (simp add: get_user_info_def Let_def)

lemma map_of_bot_pos:
  "map_of (get_user_info (Member m (Some g)) (GuildChannel pf)) ''botTopRolePosition'' =
     Some (JInt (get_role_pos g (Some (top_role (me g)))))"
  by (simp add: get_user_info_def Let_def)

text \<open>
  C9. The fields \<open>userTopRolePosition\<close> and \<open>botTopRolePosition\<close> hold \<open>-1\<close> when the top
  role is the \<open>@everyone\<close> role (the role whose id is the guild's id) and the role's own
  position otherwise; so the value for \<open>@everyone\<close> differs from that of every other role
  whose position is not negative.
\<close>

theorem role_positions_normalised:
  "map_of (get_user_info (Member m (Some g)) (GuildChannel pf)) ''userTopRolePosition'' =
     Some (JInt (if role_id (top_role m) = guild_id g then - 1 else position (top_role m))) \<and>
   map_of (get_user_info (Member m (Some g)) (GuildChannel pf)) ''botTopRolePosition'' =
     Some (JInt (if role_id (top_role (me g)) = guild_id g then - 1
                 else position (top_role (me g)))) \<and>
   (role_id everyone = guild_id g \<and> role_id r \<noteq> guild_id g \<and> 0 \<le> position r \<longrightarrow>
      get_role_pos g (Some everyone) = - 1 \<and> get_role_pos g (Some r) = position r \<and>
      get_role_pos g (Some r) \<noteq> get_role_pos g (Some everyone))"
  by (simp add: map_of_user_pos map_of_bot_pos get_role_pos_def)

theorem role_positions_normalised_witness:
  "map_of (get_user_info (Member sample_member (Some sample_guild)) sample_channel)
     ''userTopRolePosition'' = Some (JInt (- 1)) \<and>
   map_of (get_user_info (Member sample_member (Some sample_guild)) sample_channel)
     ''botTopRolePosition'' = Some (JInt 3) \<and>
   get_role_pos sample_guild (Some everyone_role) = - 1 \<and>
   get_role_pos sample_guild (Some mod_role) = position mod_role \<and>
   get_role_pos sample_guild (Some mod_role) \<noteq> get_role_pos sample_guild (Some everyone_role)"
proof -
  have h: "role_id everyone_role = guild_id sample_guild \<and>
           role_id mod_role \<noteq> guild_id sample_guild \<and> 0 \<le> position mod_role"
    by (simp add: everyone_role_def mod_role_def sample_guild_def)
  note t = role_positions_normalised[of sample_member sample_guild "\<lambda>m. [(''send_messages'', True)]"
      everyone_role mod_role]
  have u: "map_of (get_user_info (Member sample_member (Some sample_guild)) sample_channel)
     ''userTopRolePosition'' = Some (JInt (- 1))"
    using t[THEN conjunct1]
    by (simp add: sample_channel_def sample_member_def sample_guild_def everyone_role_def)
  have b: "map_of (get_user_info (Member sample_member (Some sample_guild)) sample_channel)
     ''botTopRolePosition'' = Some (JInt 3)"
    using t[THEN conjunct2, THEN conjunct1]
    by (simp add: sample_channel_def sample_bot_def sample_guild_def mod_role_def)
  show ?thesis
    by (intro conjI u b t[THEN conjunct2, THEN conjunct2, THEN mp, OF h, THEN conjunct1]
        t[THEN conjunct2, THEN conjunct2, THEN mp, OF h, THEN conjunct2, THEN conjunct1]
        t[THEN conjunct2, THEN conjunct2, THEN mp, OF h, THEN conjunct2, THEN conjunct2])
qed

subsection \<open>The audio client\<close>

lemma get_audio_SomeD:
  assumes "snd (get_audio_from_text sg spoken) = Some b"
  shows "\<exists>url r. audio_url spoken = Some url \<and> sg url = Inr r \<and> audio_ok r \<and>
           resp_read r = Inr b \<and> b \<noteq> []"
proof -
  from assms have ne: "spoken \<noteq> []" by (auto simp: get_audio_from_text_def)
  with assms obtain url where url: "audio_url spoken = Some url"
    by (cases "audio_url spoken") (auto simp: get_audio_from_text_def)
  with assms ne obtain r where r: "sg url = Inr r"
    by (cases "sg url") (auto simp: get_audio_from_text_def)
  from assms ne url r have ok: "audio_ok r"
    by (auto simp: get_audio_from_text_def audio_ok_def Let_def split: if_splits)
  with assms ne url r obtain b' where b': "resp_read r = Inr b'"
    by (cases "resp_read r") (auto simp: get_audio_from_text_def audio_ok_def Let_def)
  with assms ne url r ok have "b' = b \<and> b \<noteq> []"
    by (auto simp: get_audio_from_text_def audio_ok_def Let_def split: if_splits)
  with url r ok b' show ?thesis by blast
qed

lemma get_audio_not_ok:
  "audio_url spoken = Some url \<Longrightarrow> sg url = Inr r \<Longrightarrow> \<not> audio_ok r \<Longrightarrow>
   snd (get_audio_from_text sg spoken) = None"
  by (auto simp: get_audio_from_text_def audio_ok_def Let_def)

lemma hello_audio_url: "audio_url ''Hello'' = Some hello_url"
  by code_simp

text \<open>
  C8. \<open>get_audio_from_text\<close> returns bytes only when the answer has status 200 and a
  content type containing \<open>audio\<close> (compared in lower case), and then the bytes read;
  for every answer with another status or another content type it returns \<open>None\<close>.
\<close>

theorem audio_success_needs_200_and_audio:
  "(snd (get_audio_from_text sg spoken) = Some b \<longrightarrow>
      (\<exists>url r. audio_url spoken = Some url \<and> sg url = Inr r \<and> audio_ok r \<and> resp_read r = Inr b)) \<and>
   (audio_url spoken = Some url \<and> sg url = Inr r \<and> \<not> audio_ok r \<longrightarrow>
      snd (get_audio_from_text sg spoken) = None)"
  using get_audio_SomeD[of sg spoken b] get_audio_not_ok[of spoken url sg r] by blast

theorem audio_success_needs_200_and_audio_witness:
  "snd (get_audio_from_text (env_get sample_env) ''Hello'') = Some [73, 68, 51] \<and>
   (\<exists>url r. audio_url ''Hello'' = Some url \<and> env_get sample_env url = Inr r \<and> audio_ok r \<and>
            resp_read r = Inr [73, 68, 51]) \<and>
   snd (get_audio_from_text sample_get_404 ''Hello'') = None \<and>
   snd (get_audio_from_text sample_get_html ''Hello'') = None"
proof -
  have h: "snd (get_audio_from_text (env_get sample_env) ''Hello'') = Some [73, 68, 51]"
    by code_simp
  have n1: "audio_url ''Hello'' = Some hello_url \<and>
      sample_get_404 hello_url =
        Inr \<lparr>resp_status = 404, resp_content_type = Some ''text/plain'', resp_read = Inr [78, 111]\<rparr> \<and>
      \<not> audio_ok \<lparr>resp_status = 404, resp_content_type = Some ''text/plain'', resp_read = Inr [78, 111]\<rparr>"
    by (simp add: hello_audio_url sample_get_404_def audio_ok_def)
  have n2: "audio_url ''Hello'' = Some hello_url \<and>
      sample_get_html hello_url =
        Inr \<lparr>resp_status = 200, resp_content_type = Some ''text/html'', resp_read = Inr [60, 104]\<rparr> \<and>
      \<not> audio_ok \<lparr>resp_status = 200, resp_content_type = Some ''text/html'', resp_read = Inr [60, 104]\<rparr>"
    unfolding hello_audio_url sample_get_html_def by code_simp
  show ?thesis
    by (intro conjI h
        audio_success_needs_200_and_audio[THEN conjunct1, THEN mp, OF h]
        audio_success_needs_200_and_audio[where sg=sample_get_404 and spoken="''Hello''" and url=hello_url, THEN conjunct2, THEN mp, OF n1]
        audio_success_needs_200_and_audio[where sg=sample_get_html and spoken="''Hello''" and url=hello_url, THEN conjunct2, THEN mp, OF n2])
qed

text \<open>
  C10. For the empty text \<open>get_audio_from_text\<close> returns \<open>None\<close> without any HTTP call; for
  an answer with status 200 and an audio content type whose body is empty it returns
  \<open>None\<close>; the bytes of a success are never empty.
\<close>

theorem audio_success_is_not_empty:
  "get_audio_from_text sg [] = ([], None) \<and>
   (audio_url spoken = Some url \<and> sg url = Inr r \<and> audio_ok r \<and> resp_read r = Inr [] \<longrightarrow>
      snd (get_audio_from_text sg spoken) = None) \<and>
   (snd (get_audio_from_text sg spoken) = Some b \<longrightarrow> b \<noteq> [])"
proof (intro conjI impI)
  show "get_audio_from_text sg [] = ([], None)" by (simp add: get_audio_from_text_def)
next
  assume "audio_url spoken = Some url \<and> sg url = Inr r \<and> audio_ok r \<and> resp_read r = Inr []"
  then show "snd (get_audio_from_text sg spoken) = None"
    by (auto simp: get_audio_from_text_def Let_def)
next
  assume "snd (get_audio_from_text sg spoken) = Some b"
  then show "b \<noteq> []" using get_audio_SomeD by blast
qed


theorem audio_success_is_not_empty_witness:
  "snd (get_audio_from_text sample_get_empty ''Hello'') = None \<and>
   snd (get_audio_from_text (env_get sample_env) ''Hello'') = Some [73, 68, 51] \<and>
   [73, 68, 51] \<noteq> ([] :: bytes)"
proof -
  have e: "audio_url ''Hello'' = Some hello_url \<and>
      sample_get_empty hello_url =
        Inr \<lparr>resp_status = 200, resp_content_type = Some ''audio/mpeg'', resp_read = Inr []\<rparr> \<and>
      audio_ok \<lparr>resp_status = 200, resp_content_type = Some ''audio/mpeg'', resp_read = Inr []\<rparr> \<and>
      resp_read \<lparr>resp_status = 200, resp_content_type = Some ''audio/mpeg'', resp_read = Inr []\<rparr>
        = Inr []"
    unfolding hello_audio_url sample_get_empty_def by code_simp
  have h: "snd (get_audio_from_text (env_get sample_env) ''Hello'') = Some [73, 68, 51]"
    by code_simp
  show ?thesis
    by (intro conjI h
        audio_success_is_not_empty[where sg=sample_get_empty and spoken="''Hello''" and url=hello_url, THEN conjunct2, THEN conjunct1, THEN mp, OF e]
        audio_success_is_not_empty[THEN conjunct2, THEN conjunct2, THEN mp, OF h])
qed

subsection \<open>The audio URL\<close>

lemma quote_char_space: "quote_char (CHR '' '') = ''%20''"
  by code_simp

lemma quote_char_dot: "quote_char (CHR ''.'') = ''.''"
  by code_simp

lemma length_concat_replicate: "length (concat (replicate n xs)) = n * length xs"
  by (induction n) simp_all

lemma quote_append: "quote (a @ b) = quote a @ quote b"
  by (simp add: quote_def)

lemma length_quote_spaces: "length (quote (replicate n (CHR '' ''))) = 3 * n"
  by (simp add: quote_def quote_char_space length_concat_replicate)

lemma length_quote_dots: "length (quote ''...'') = 3"
  by (simp add: quote_def quote_char_dot)

lemma length_format_prompt: "length (format_prompt p) = length p + 59"
  by (simp add: format_prompt_def)

lemma template_length: "length AI_AUDIO_API_URL_TEMPLATE = 67"
  by (simp add: AI_AUDIO_API_URL_TEMPLATE_def)

lemma audio_url_spaces:
  "audio_url (replicate 700 (CHR '' '')) =
     Some (format_prompt (quote (replicate 700 (CHR '' '') @ ''...'')))"
  by (simp add: audio_url_def Let_def length_format_prompt length_quote_spaces template_length)

text \<open>
  C4 fails on the code. For a text of 700 spaces the first URL has 2159 characters; the
  text is cut to at most 1891 characters, which leaves all 700 spaces, the ellipsis is
  added, and the URL requested has 2162 characters, above the ceiling of 2000.
\<close>

theorem truncated_audio_url_too_long:
  "length (format_prompt (quote (replicate 700 (CHR '' '')))) = 2159 \<and>
   (\<exists>u. fst (get_audio_from_text sg (replicate 700 (CHR '' ''))) = [HttpGet u] \<and>
        audio_url (replicate 700 (CHR '' '')) = Some u \<and> length u = 2162)"
proof -
  let ?u = "format_prompt (quote (replicate 700 (CHR '' '') @ ''...''))"
  have "length (format_prompt (quote (replicate 700 (CHR '' '')))) = 2159"
    by (simp add: length_format_prompt length_quote_spaces)
  moreover have "length ?u = 2162"
    by (simp add: length_format_prompt quote_append length_quote_spaces length_quote_dots)
  moreover have "fst (get_audio_from_text sg (replicate 700 (CHR '' ''))) = [HttpGet ?u]"
    by (simp add: get_audio_from_text_def audio_url_spaces)
  ultimately show ?thesis using audio_url_spaces by blast
qed

end
